theory Spec2Isabelle
  imports Main "HOL-Library.Sublist"
begin

section \<open>The startup script \<open>src/ext/server.py\<close>\<close>

text \<open>
  The script is a straight line of module-level statements: two reads of the process
  environment, a guard that raises, six calls into the agent framework, and, under the
  \<open>__main__\<close> guard, one call of the web server. The model keeps that line. What a
  statement does beyond computing a value (it raises, it calls a constructor of the
  framework, it calls the server) is written out: a run of the script yields the
  sequence of external calls made, in order, and either the exception that ended the run
  or the module's global names.
\<close>

subsection \<open>The process environment\<close>

text \<open>
  \<open>os.environ\<close> is a mapping from names to values. A string is a list of characters
  with code points below 256.
\<close>

type_synonym environ = "string \<rightharpoonup> string"

text \<open>\<open>os.getenv(key, default)\<close>, the default being \<open>None\<close> or a string.\<close>

definition getenv :: "environ \<Rightarrow> string \<Rightarrow> string option \<Rightarrow> string option" where
  "getenv env key dflt = (case env key of Some v \<Rightarrow> Some v | None \<Rightarrow> dflt)"

text \<open>\<open>os.environ.get(key, default)\<close> with a string default.\<close>

definition environ_get :: "environ \<Rightarrow> string \<Rightarrow> string \<Rightarrow> string" where
  "environ_get env key dflt = (case env key of Some v \<Rightarrow> v | None \<Rightarrow> dflt)"

text \<open>
  Python's truth value of an \<open>Optional[str]\<close>: \<open>None\<close> and the empty string are false,
  every other string is true.
\<close>

definition truthy :: "string option \<Rightarrow> bool" where
  "truthy v = (case v of None \<Rightarrow> False | Some s \<Rightarrow> s \<noteq> [])"

subsection \<open>Exceptions\<close>

text \<open>
  \<open>ValueError msg\<close> is the \<open>ValueError\<close> the script raises itself, with its message.
  The next two are the \<open>ValueError\<close>s of the builtin \<open>int\<close>:
  \<open>Int_invalid_literal s\<close> is "invalid literal for int() with base 10" for the text \<open>s\<close>,
  \<open>Int_exceeds_limit lim n\<close> is "Exceeds the limit (lim digits) for integer string
  conversion" for a text of \<open>n\<close> digits. \<open>Other_exception c\<close> is an exception of any
  other class \<open>c\<close>; in a run of the script such an exception can only come out of
  \<open>uvicorn.run\<close>.
\<close>

datatype exn =
    ValueError string
  | Int_invalid_literal string
  | Int_exceeds_limit nat nat
  | Other_exception string

subsection \<open>The builtin \<open>int\<close> on a string\<close>

text \<open>
  \<open>int(text)\<close> in base 10, as CPython reads it: whitespace on both sides is skipped,
  one sign may follow the leading whitespace, then come decimal digits, where a single
  underscore may stand between two digits. The characters skipped as whitespace are
  tab, line feed, vertical tab, form feed, carriage return, space, and the two
  whitespace characters of the code points 128 to 255 (next line, no-break space).
  A text of more digits than \<open>sys.get_int_max_str_digits()\<close> is refused; the interpreter
  looks at that limit only above 640 digits, and the limit 0 switches the check off.
  The limit is a setting of the interpreter (4300 unless changed), so it is a parameter.
\<close>

definition is_space :: "char \<Rightarrow> bool" where
  "is_space c = (c \<in> set [CHR 0x09, CHR 0x0A, CHR 0x0B, CHR 0x0C, CHR 0x0D, CHR 0x20,
                          CHR 0x85, CHR 0xA0])"

definition is_digit :: "char \<Rightarrow> bool" where
  "is_digit c = (c \<in> set ''0123456789'')"

definition digit_value :: "char \<Rightarrow> nat" where
  "digit_value c = of_char c - 48"

definition decimal_value :: "string \<Rightarrow> nat" where
  "decimal_value ds = foldl (\<lambda>acc c. 10 * acc + digit_value c) 0 ds"

fun adjacent_underscores :: "string \<Rightarrow> bool" where
  "adjacent_underscores (a # b # cs) =
     ((a = CHR ''_'' \<and> b = CHR ''_'') \<or> adjacent_underscores (b # cs))"
| "adjacent_underscores cs = False"

definition split_sign :: "string \<Rightarrow> bool \<times> string" where
  "split_sign s =
     (case s of
        [] \<Rightarrow> (False, s)
      | c # r \<Rightarrow> if c = CHR ''+'' then (False, r)
                 else if c = CHR ''-'' then (True, r)
                 else (False, s))"

definition py_int :: "nat \<Rightarrow> string \<Rightarrow> exn + int" where
  "py_int max_str_digits text =
     (let (negative, s) = split_sign (dropWhile is_space text);
          body = takeWhile (\<lambda>c. is_digit c \<or> c = CHR ''_'') s;
          rest = dropWhile (\<lambda>c. is_digit c \<or> c = CHR ''_'') s;
          digits = filter is_digit body
      in if body \<noteq> [] \<and>
            (hd body = CHR ''_'' \<or> last body = CHR ''_'' \<or> adjacent_underscores body)
         then Inl (Int_invalid_literal text)
         else if 640 < length digits \<and> 0 < max_str_digits \<and> max_str_digits < length digits
         then Inl (Int_exceeds_limit max_str_digits (length digits))
         else if body = [] \<or> dropWhile is_space rest \<noteq> []
         then Inl (Int_invalid_literal text)
         else Inr ((if negative then - 1 else 1) * int (decimal_value digits)))"


subsection \<open>The framework's objects\<close>

text \<open>
  The classes \<open>InMemoryDb\<close>, \<open>OpenAIChat\<close>, \<open>Agent\<close>, \<open>AGUI\<close> and \<open>AgentOS\<close> belong to the
  agent framework, \<open>uvicorn.run\<close> to the web server. The script only calls them; what the
  framework does inside a constructor is not part of the script.

  Python objects have identity: a second \<open>InMemoryDb()\<close> is another object than the
  first, and \<open>Agent(model=m, db=d)\<close> holds the objects \<open>m\<close> and \<open>d\<close> themselves, not
  copies. Every object therefore carries an identity, its first field: the number of
  objects the run had constructed before it. The other fields are the arguments the
  script passes to the constructor. Two objects are equal exactly when they are the same
  object. The keyword \<open>id\<close> of \<open>OpenAIChat\<close> is the field \<open>model_id\<close>.
\<close>

datatype in_memory_db = InMemoryDb (db_oid: nat)

datatype openai_chat =
  OpenAIChat (model_oid: nat) (model_id: string) (base_url: "string option")

datatype agent = Agent (agent_oid: nat) (model: openai_chat) (db: in_memory_db)

datatype agui = AGUI (agui_oid: nat) (agui_agent: agent)

datatype agent_os =
  AgentOS (os_oid: nat) (description: string) (agents: "agent list")
          (enable_mcp_server: bool) (interfaces: "agui list")

text \<open>The web handler that \<open>agent_os.get_app()\<close> returns.\<close>

datatype web_app = App_of (app_oid: nat) (app_os: agent_os)

datatype obj =
    Obj_InMemoryDb in_memory_db
  | Obj_OpenAIChat openai_chat
  | Obj_Agent agent
  | Obj_AGUI agui
  | Obj_AgentOS agent_os
  | Obj_App web_app

fun oid :: "obj \<Rightarrow> nat" where
  "oid (Obj_InMemoryDb d) = db_oid d"
| "oid (Obj_OpenAIChat m) = model_oid m"
| "oid (Obj_Agent a) = agent_oid a"
| "oid (Obj_AGUI i) = agui_oid i"
| "oid (Obj_AgentOS os) = os_oid os"
| "oid (Obj_App w) = app_oid w"

subsection \<open>External calls and runs\<close>

text \<open>
  \<open>Construct x\<close>: the framework was called and returned the object \<open>x\<close>.
  \<open>Uvicorn_run a host port\<close>: \<open>uvicorn.run(a, host=host, port=port)\<close> was called; this
  is the only place where the script asks for a network listener.
\<close>

datatype event =
    Construct obj
  | Uvicorn_run web_app string int

text \<open>The listeners a run asked for, and the objects it constructed, in order.\<close>

fun is_listen :: "event \<Rightarrow> bool" where
  "is_listen (Uvicorn_run a h p) = True"
| "is_listen (Construct x) = False"

definition listeners :: "event list \<Rightarrow> event list" where
  "listeners tr = filter is_listen tr"

fun constructed :: "event list \<Rightarrow> obj list" where
  "constructed [] = []"
| "constructed (Construct x # tr) = x # constructed tr"
| "constructed (Uvicorn_run a h p # tr) = constructed tr"

text \<open>The identity of the next object: the number of objects constructed so far.\<close>

definition fresh :: "event list \<Rightarrow> nat" where
  "fresh tr = length (constructed tr)"

text \<open>
  What \<open>uvicorn.run\<close> does once called belongs to the server, not to the script, and the
  script handles none of it. It is a parameter of the model: for the application, host
  and port it is called with, the server either raises an exception out of the call
  (\<open>Some e\<close>) or raises nothing (\<open>None\<close>: it binds and serves until the process is
  terminated). A port outside 0..65535, for one, is refused with an \<open>OverflowError\<close>
  when the socket is bound, and a port already in use ends the server as well. Every
  theorem below holds for every server.
\<close>

type_synonym server = "web_app \<Rightarrow> string \<Rightarrow> int \<Rightarrow> exn option"

text \<open>
  A run takes the external calls made so far and returns them extended by its own,
  with the exception that stopped it (\<open>Inl\<close>) or the value computed (\<open>Inr\<close>).
\<close>

type_synonym 'a run = "event list \<Rightarrow> event list \<times> (exn + 'a)"

definition done_with :: "'a \<Rightarrow> 'a run" where
  "done_with x = (\<lambda>tr. (tr, Inr x))"

definition raise :: "exn \<Rightarrow> 'a run" where
  "raise e = (\<lambda>tr. (tr, Inl e))"

text \<open>A value or exception of a pure builtin, with no external call.\<close>

definition pure_result :: "exn + 'a \<Rightarrow> 'a run" where
  "pure_result r = (\<lambda>tr. (tr, r))"

text \<open>Sequencing of statements: an exception ends the run, keeping the calls made.\<close>

definition and_then :: "'a run \<Rightarrow> ('a \<Rightarrow> 'b run) \<Rightarrow> 'b run" where
  "and_then m f =
     (\<lambda>tr. case m tr of
             (tr', Inl e) \<Rightarrow> (tr', Inl e)
           | (tr', Inr x) \<Rightarrow> f x tr')"

text \<open>A constructor call: the new object gets the next identity and is recorded.\<close>

definition construct :: "(nat \<Rightarrow> 'a) \<Rightarrow> ('a \<Rightarrow> obj) \<Rightarrow> 'a run" where
  "construct mk as_obj =
     (\<lambda>tr. (tr @ [Construct (as_obj (mk (fresh tr)))], Inr (mk (fresh tr))))"

definition new_InMemoryDb :: "in_memory_db run" where
  "new_InMemoryDb = construct InMemoryDb Obj_InMemoryDb"

definition new_OpenAIChat :: "string \<Rightarrow> string option \<Rightarrow> openai_chat run" where
  "new_OpenAIChat i u = construct (\<lambda>n. OpenAIChat n i u) Obj_OpenAIChat"

definition new_Agent :: "openai_chat \<Rightarrow> in_memory_db \<Rightarrow> agent run" where
  "new_Agent m d = construct (\<lambda>n. Agent n m d) Obj_Agent"

definition new_AGUI :: "agent \<Rightarrow> agui run" where
  "new_AGUI a = construct (\<lambda>n. AGUI n a) Obj_AGUI"

definition new_AgentOS :: "string \<Rightarrow> agent list \<Rightarrow> bool \<Rightarrow> agui list \<Rightarrow> agent_os run" where
  "new_AgentOS d as mcp is = construct (\<lambda>n. AgentOS n d as mcp is) Obj_AgentOS"

definition get_app :: "agent_os \<Rightarrow> web_app run" where
  "get_app os = construct (\<lambda>n. App_of n os) Obj_App"

text \<open>
  The call is recorded whatever the server does with it; the exception the server
  raises, if any, ends the run.
\<close>

definition uvicorn_run :: "server \<Rightarrow> web_app \<Rightarrow> string \<Rightarrow> int \<Rightarrow> unit run" where
  "uvicorn_run srv a host port =
     (\<lambda>tr. (tr @ [Uvicorn_run a host port],
            case srv a host port of None \<Rightarrow> Inr () | Some e \<Rightarrow> Inl e))"

subsection \<open>The script\<close>

text \<open>
  The module's global names. A run that no exception ended has bound them all.
\<close>

record globals =
  MODEL_BASE_URL :: "string option"
  MODEL_API_KEY :: "string option"
  storage :: in_memory_db
  blockether_model :: openai_chat
  conversational_agent :: agent
  agent_os :: agent_os
  app :: web_app

text \<open>
  \<open>script srv max_str_digits name environ\<close> runs the module with \<open>__name__ = name\<close> in
  the environment \<open>environ\<close>, from no external call made, against the server \<open>srv\<close>.
  Python evaluates the arguments of a call before the call:
  \<open>AGUI(agent=conversational_agent)\<close> is built before \<open>AgentOS\<close> is called, and the port
  is converted before \<open>uvicorn.run\<close> is called.
\<close>

definition script :: "server \<Rightarrow> nat \<Rightarrow> string \<Rightarrow> environ \<Rightarrow> event list \<times> (exn + globals)" where
  "script srv max_str_digits name environ =
     (let MODEL_BASE_URL = getenv environ ''BLOCKETHER_LLM_API_BASE_URL'' None;
          MODEL_API_KEY = getenv environ ''BLOCKETHER_LLM_API_KEY'' None
      in (if \<not> truthy MODEL_BASE_URL
          then raise (ValueError ''BLOCKETHER_LLM_API_BASE_URL environment variable is not set.'')
          else
           and_then new_InMemoryDb (\<lambda>storage.
           and_then (new_OpenAIChat ''gpt-4o'' MODEL_BASE_URL) (\<lambda>blockether_model.
           and_then (new_Agent blockether_model storage) (\<lambda>conversational_agent.
           and_then (new_AGUI conversational_agent) (\<lambda>interface.
           and_then (new_AgentOS ''Example app with MCP enabled'' [conversational_agent] True
                       [interface]) (\<lambda>agent_os.
           and_then (get_app agent_os) (\<lambda>app.
           and_then
             (if name = ''__main__''
              then and_then (pure_result (py_int max_str_digits
                                            (environ_get environ ''PORT'' ''8080'')))
                     (\<lambda>port. uvicorn_run srv app ''0.0.0.0'' port)
              else done_with ())
             (\<lambda>_. done_with
                \<lparr>MODEL_BASE_URL = MODEL_BASE_URL, MODEL_API_KEY = MODEL_API_KEY,
                 storage = storage, blockether_model = blockether_model,
                 conversational_agent = conversational_agent, agent_os = agent_os,
                 app = app\<rparr>)))))))) [])"

text \<open>A message mentions a name when the name occurs in it as a contiguous piece.\<close>

definition mentions :: "string \<Rightarrow> string \<Rightarrow> bool" where
  "mentions msg name = sublist name msg"

subsection \<open>The spec's names for the objects\<close>

text \<open>
  The spec speaks of a storage backend, a chat-model client, a conversational agent, a
  server-application object and the application's web handler. \<open>kind_of\<close> gives each
  object of the script its name in the spec; the \<open>AGUI\<close> interface, which the spec's
  list does not name, is the protocol interface.
\<close>

datatype kind =
    Storage_backend
  | Chat_model_client
  | Conversational_agent
  | Protocol_interface
  | Server_application
  | Web_handler

fun kind_of :: "obj \<Rightarrow> kind" where
  "kind_of (Obj_InMemoryDb d) = Storage_backend"
| "kind_of (Obj_OpenAIChat m) = Chat_model_client"
| "kind_of (Obj_Agent a) = Conversational_agent"
| "kind_of (Obj_AGUI i) = Protocol_interface"
| "kind_of (Obj_AgentOS os) = Server_application"
| "kind_of (Obj_App a) = Web_handler"

subsection \<open>A complete run in closed form\<close>

text \<open>
  Two terms used by the lemmas below to name what \<open>script\<close> computes: the globals of
  a run that passed the guard, for the two values read from the environment, and the six
  constructor calls that produce them. Lemma \<open>script_cases\<close> proves that \<open>script\<close>
  yields exactly these.
\<close>

definition built :: "string option \<Rightarrow> string option \<Rightarrow> globals" where
  "built u k =
     (let s = InMemoryDb 0; m = OpenAIChat 1 ''gpt-4o'' u; a = Agent 2 m s;
          os = AgentOS 4 ''Example app with MCP enabled'' [a] True [AGUI 3 a]
      in \<lparr>MODEL_BASE_URL = u, MODEL_API_KEY = k, storage = s, blockether_model = m,
          conversational_agent = a, agent_os = os, app = App_of 5 os\<rparr>)"

definition constructions :: "globals \<Rightarrow> event list" where
  "constructions g =
     [Construct (Obj_InMemoryDb (storage g)), Construct (Obj_OpenAIChat (blockether_model g)),
      Construct (Obj_Agent (conversational_agent g)),
      Construct (Obj_AGUI (AGUI 3 (conversational_agent g))),
      Construct (Obj_AgentOS (agent_os g)), Construct (Obj_App (app g))]"

section \<open>The shape of a run\<close>

lemmas run_defs = and_then_def construct_def done_with_def raise_def pure_result_def
  new_InMemoryDb_def new_OpenAIChat_def new_Agent_def new_AGUI_def new_AgentOS_def
  get_app_def uvicorn_run_def fresh_def

lemma getenv_None: "getenv env key None = env key"
  by (simp add: getenv_def split: option.splits)

lemma truthy_Some: "truthy (Some u) = (u \<noteq> [])"
  by (simp add: truthy_def)

lemma truthy_None: "\<not> truthy None"
  by (simp add: truthy_def)

lemma script_not_configured:
  assumes "\<not> truthy (environ ''BLOCKETHER_LLM_API_BASE_URL'')"
  shows "script srv lim name environ =
    ([], Inl (ValueError ''BLOCKETHER_LLM_API_BASE_URL environment variable is not set.''))"
  using assms by (simp add: script_def getenv_None raise_def Let_def)

lemma script_imported:
  assumes "truthy (environ ''BLOCKETHER_LLM_API_BASE_URL'')" and "name \<noteq> ''__main__''"
  shows "script srv lim name environ =
    (constructions (built (environ ''BLOCKETHER_LLM_API_BASE_URL'')
                          (environ ''BLOCKETHER_LLM_API_KEY'')),
     Inr (built (environ ''BLOCKETHER_LLM_API_BASE_URL'') (environ ''BLOCKETHER_LLM_API_KEY'')))"
  using assms
  by (simp add: script_def getenv_None run_defs built_def constructions_def Let_def)

lemma script_main:
  assumes "truthy (environ ''BLOCKETHER_LLM_API_BASE_URL'')"
  shows "script srv lim ''__main__'' environ =
    (let g = built (environ ''BLOCKETHER_LLM_API_BASE_URL'') (environ ''BLOCKETHER_LLM_API_KEY'')
     in case py_int lim (environ_get environ ''PORT'' ''8080'') of
          Inl e \<Rightarrow> (constructions g, Inl e)
        | Inr port \<Rightarrow>
            (constructions g @ [Uvicorn_run (app g) ''0.0.0.0'' port],
             case srv (app g) ''0.0.0.0'' port of None \<Rightarrow> Inr g | Some e \<Rightarrow> Inl e))"
  using assms
  by (simp add: script_def getenv_None run_defs built_def constructions_def Let_def
      eval_nat_numeral split: sum.splits option.splits)

text \<open>The ways a run can go, in one equation.\<close>

lemma script_cases:
  "script srv lim name environ =
     (if \<not> truthy (environ ''BLOCKETHER_LLM_API_BASE_URL'')
      then ([], Inl (ValueError ''BLOCKETHER_LLM_API_BASE_URL environment variable is not set.''))
      else let g = built (environ ''BLOCKETHER_LLM_API_BASE_URL'')
                         (environ ''BLOCKETHER_LLM_API_KEY'')
           in if name = ''__main__''
              then (case py_int lim (environ_get environ ''PORT'' ''8080'') of
                      Inl e \<Rightarrow> (constructions g, Inl e)
                    | Inr port \<Rightarrow>
                        (constructions g @ [Uvicorn_run (app g) ''0.0.0.0'' port],
                         case srv (app g) ''0.0.0.0'' port of
                           None \<Rightarrow> Inr g | Some e \<Rightarrow> Inl e))
              else (constructions g, Inr g))"
proof (cases "truthy (environ ''BLOCKETHER_LLM_API_BASE_URL'')")
  case False
  then show ?thesis by (simp add: script_not_configured)
next
  case t: True
  show ?thesis
  proof (cases "name = ''__main__''")
    case True
    with t show ?thesis using script_main [of environ srv lim] by simp
  next
    case False
    with t show ?thesis using script_imported [of environ name srv lim] by (simp add: Let_def)
  qed
qed

lemma listeners_Nil: "listeners [] = []"
  by (simp add: listeners_def)

lemma listeners_constructions: "listeners (constructions g) = []"
  by (simp add: listeners_def constructions_def)

lemma listeners_served:
  "listeners (constructions g @ [Uvicorn_run a h p]) = [Uvicorn_run a h p]"
  by (simp add: listeners_def constructions_def)

lemma constructed_constructions:
  "constructed (constructions g) =
     [Obj_InMemoryDb (storage g), Obj_OpenAIChat (blockether_model g),
      Obj_Agent (conversational_agent g), Obj_AGUI (AGUI 3 (conversational_agent g)),
      Obj_AgentOS (agent_os g), Obj_App (app g)]"
  by (simp add: constructions_def)

lemma constructed_append: "constructed (xs @ ys) = constructed xs @ constructed ys"
  by (induction xs rule: constructed.induct) simp_all

lemma constructed_served:
  "constructed (constructions g @ [Uvicorn_run a h p]) = constructed (constructions g)"
  by (simp add: constructed_append)

lemma built_simps:
  "MODEL_API_KEY (built u k) = k"
  "MODEL_BASE_URL (built u k) = u"
  "app (built u k) = app (built u None)"
  "constructions (built u k) = constructions (built u None)"
  "(built u k)\<lparr>MODEL_API_KEY := None\<rparr> = built u None"
  by (simp_all add: built_def constructions_def Let_def)

text \<open>The identities of the six objects are their positions, so no two coincide.\<close>

lemma oid_constructions:
  "map oid (constructed (constructions (built u k))) = [0, 1, 2, 3, 4, 5]"
  by (simp add: constructions_def built_def Let_def)

text \<open>A run that no exception ended passed the guard and made the six calls.\<close>

lemma script_Inr:
  assumes "snd (script srv lim name environ) = Inr g"
  shows "truthy (environ ''BLOCKETHER_LLM_API_BASE_URL'')"
    and "g = built (environ ''BLOCKETHER_LLM_API_BASE_URL'') (environ ''BLOCKETHER_LLM_API_KEY'')"
    and "constructed (fst (script srv lim name environ)) = constructed (constructions g)"
  using assms
  by (auto simp: script_cases Let_def constructed_append
      split: if_splits sum.splits option.splits)

section \<open>The builtin \<open>int\<close> on plain digits\<close>

text \<open>
  On a non-empty text of at most 640 decimal digits and nothing else, \<open>int\<close> returns the
  number the digits denote, whatever the digit limit.
\<close>

lemma is_digit_not_other:
  assumes "is_digit c"
  shows "\<not> is_space c" and "c \<noteq> CHR ''+''" and "c \<noteq> CHR ''-''" and "c \<noteq> CHR ''_''"
  using assms by (auto simp: is_digit_def is_space_def)

lemma no_underscore_not_adjacent:
  "CHR ''_'' \<notin> set cs \<Longrightarrow> \<not> adjacent_underscores cs"
  by (induction cs rule: adjacent_underscores.induct) auto

lemma py_int_digits:
  assumes "ds \<noteq> []" and "\<forall>c\<in>set ds. is_digit c" and "length ds \<le> 640"
  shows "py_int lim ds = Inr (int (decimal_value ds))"
proof -
  obtain c cs where ds: "ds = c # cs"
    using assms(1) by (cases ds) auto
  have c: "is_digit c" using assms(2) ds by simp
  have sp: "dropWhile is_space ds = ds"
    using c by (simp add: ds is_digit_not_other(1))
  have sg: "split_sign ds = (False, ds)"
    using c by (simp add: ds split_sign_def is_digit_not_other)
  have tk: "takeWhile (\<lambda>c. is_digit c \<or> c = CHR ''_'') ds = ds"
    using assms(2) by (simp add: takeWhile_eq_all_conv)
  have dr: "dropWhile (\<lambda>c. is_digit c \<or> c = CHR ''_'') ds = []"
    using assms(2) by (simp add: dropWhile_eq_Nil_conv)
  have nu: "CHR ''_'' \<notin> set ds"
    using assms(2) is_digit_not_other(4) by blast
  have hd: "hd ds \<noteq> CHR ''_''"
    using c by (simp add: ds is_digit_not_other(4))
  have la: "last ds \<noteq> CHR ''_''"
    using nu assms(1) last_in_set by metis
  have fl: "filter is_digit ds = ds"
    using assms(2) by (simp add: filter_id_conv)
  show ?thesis
    using assms(1,3) hd la no_underscore_not_adjacent [OF nu]
    by (simp add: py_int_def sp sg tk dr fl)
qed

lemma py_int_default: "py_int lim ''8080'' = Inr 8080"
  by (simp add: py_int_def split_sign_def is_space_def is_digit_def decimal_value_def
      digit_value_def)


section \<open>The startup contract\<close>

subsection \<open>Missing configuration\<close>

text \<open>
  C1: in every environment in which \<open>BLOCKETHER_LLM_API_BASE_URL\<close> is unset, whatever
  the module's name, the interpreter's digit limit and the server, the run ends with the
  \<open>ValueError\<close> whose message mentions \<open>BLOCKETHER_LLM_API_BASE_URL\<close>, and the run
  never called \<open>uvicorn.run\<close>: no network listener is opened.
\<close>

theorem unset_base_url_raises:
  assumes "environ ''BLOCKETHER_LLM_API_BASE_URL'' = None"
  shows "snd (script srv lim name environ) =
           Inl (ValueError ''BLOCKETHER_LLM_API_BASE_URL environment variable is not set.'')
         \<and> mentions ''BLOCKETHER_LLM_API_BASE_URL environment variable is not set.''
                     ''BLOCKETHER_LLM_API_BASE_URL''
         \<and> listeners (fst (script srv lim name environ)) = []"
proof -
  have "\<not> truthy (environ ''BLOCKETHER_LLM_API_BASE_URL'')"
    using assms by (simp add: truthy_None)
  then have "script srv lim name environ =
      ([], Inl (ValueError ''BLOCKETHER_LLM_API_BASE_URL environment variable is not set.''))"
    by (rule script_not_configured)
  then show ?thesis by (simp add: mentions_def listeners_def)
qed

theorem unset_base_url_raises_witness:
  "snd (script (\<lambda>a h p. None) 4300 ''__main__'' Map.empty) =
           Inl (ValueError ''BLOCKETHER_LLM_API_BASE_URL environment variable is not set.'')
   \<and> mentions ''BLOCKETHER_LLM_API_BASE_URL environment variable is not set.''
               ''BLOCKETHER_LLM_API_BASE_URL''
   \<and> listeners (fst (script (\<lambda>a h p. None) 4300 ''__main__'' Map.empty)) = []"
proof -
  have h: "(Map.empty :: environ) ''BLOCKETHER_LLM_API_BASE_URL'' = None" by simp
  show ?thesis
    by (rule unset_base_url_raises
          [where environ = Map.empty and srv = "\<lambda>a h p. None" and lim = 4300
             and name = "''__main__''", OF h])
qed

text \<open>
  C7: when \<open>BLOCKETHER_LLM_API_BASE_URL\<close> is missing, the run is the \<open>ValueError\<close> and
  nothing else: the sequence of external calls is empty, so at the time of the failure
  no storage backend, model client, agent or application object has been constructed
  and no listener has been asked for.
\<close>

theorem missing_base_url_before_construction:
  assumes "environ ''BLOCKETHER_LLM_API_BASE_URL'' = None"
  shows "script srv lim name environ =
           ([], Inl (ValueError ''BLOCKETHER_LLM_API_BASE_URL environment variable is not set.''))
         \<and> constructed (fst (script srv lim name environ)) = []
         \<and> listeners (fst (script srv lim name environ)) = []"
  using assms by (simp add: script_cases truthy_None listeners_Nil)

theorem missing_base_url_before_construction_witness:
  "script (\<lambda>a h p. None) 4300 ''__main__'' [''PORT'' \<mapsto> ''9090''] =
     ([], Inl (ValueError ''BLOCKETHER_LLM_API_BASE_URL environment variable is not set.''))
   \<and> constructed (fst (script (\<lambda>a h p. None) 4300 ''__main__'' [''PORT'' \<mapsto> ''9090''])) = []
   \<and> listeners (fst (script (\<lambda>a h p. None) 4300 ''__main__'' [''PORT'' \<mapsto> ''9090''])) = []"
proof -
  have h: "[''PORT'' \<mapsto> ''9090''] ''BLOCKETHER_LLM_API_BASE_URL'' = None" by simp
  show ?thesis
    by (rule missing_base_url_before_construction
          [where environ = "[''PORT'' \<mapsto> ''9090'']" and srv = "\<lambda>a h p. None" and lim = 4300
             and name = "''__main__''", OF h])
qed

text \<open>
  C8: an environment in which \<open>BLOCKETHER_LLM_API_BASE_URL\<close> is the empty string runs
  exactly as the same environment with the variable removed, and the run ends with the
  missing-configuration \<open>ValueError\<close>.
\<close>

theorem empty_base_url_as_unset:
  assumes "environ ''BLOCKETHER_LLM_API_BASE_URL'' = Some []"
  shows "script srv lim name environ =
           script srv lim name (environ(''BLOCKETHER_LLM_API_BASE_URL'' := None))
         \<and> snd (script srv lim name environ) =
             Inl (ValueError ''BLOCKETHER_LLM_API_BASE_URL environment variable is not set.'')"
  using assms by (simp add: script_cases truthy_Some truthy_None)

theorem empty_base_url_as_unset_witness:
  "snd (script (\<lambda>a h p. None) 4300 ''__main__'' [''BLOCKETHER_LLM_API_BASE_URL'' \<mapsto> []]) =
     Inl (ValueError ''BLOCKETHER_LLM_API_BASE_URL environment variable is not set.'')"
proof -
  have h: "[''BLOCKETHER_LLM_API_BASE_URL'' \<mapsto> []] ''BLOCKETHER_LLM_API_BASE_URL'' = Some []"
    by simp
  from empty_base_url_as_unset
         [where environ = "[''BLOCKETHER_LLM_API_BASE_URL'' \<mapsto> []]" and srv = "\<lambda>a h p. None"
            and lim = 4300 and name = "''__main__''", OF h]
  show ?thesis by (rule conjunct2)
qed

subsection \<open>Starting the server\<close>

text \<open>
  The sentence "for every environment in which the base URL is set, run as the main
  entry point, the server binds 0.0.0.0 at the port of \<open>PORT\<close>, or 8080" fails in two
  environments in which the variable is set: with the empty string as its value the
  guard raises, and with \<open>PORT=abc\<close> the conversion raises. In both, run as
  \<open>__main__\<close>, \<open>uvicorn.run\<close> is never called. It fails a third time at \<open>PORT=70000\<close>
  against a server that refuses a port outside 0..65535, as binding a socket does:
  \<open>uvicorn.run\<close> is called with port 70000, and the run ends in the server's exception.
\<close>

theorem main_binds_port_counterexample:
  "[''BLOCKETHER_LLM_API_BASE_URL'' \<mapsto> []] ''BLOCKETHER_LLM_API_BASE_URL'' \<noteq> None
   \<and> listeners (fst (script (\<lambda>a h p. None) 4300 ''__main__''
         [''BLOCKETHER_LLM_API_BASE_URL'' \<mapsto> []])) = []
   \<and> [''BLOCKETHER_LLM_API_BASE_URL'' \<mapsto> ''http://x'', ''PORT'' \<mapsto> ''abc'']
         ''BLOCKETHER_LLM_API_BASE_URL'' \<noteq> None
   \<and> listeners (fst (script (\<lambda>a h p. None) 4300 ''__main__''
         [''BLOCKETHER_LLM_API_BASE_URL'' \<mapsto> ''http://x'', ''PORT'' \<mapsto> ''abc''])) = []
   \<and> snd (script (\<lambda>a h p. if p < 0 \<or> 65535 < p then Some (Other_exception ''OverflowError'')
                            else None) 4300 ''__main__''
         [''BLOCKETHER_LLM_API_BASE_URL'' \<mapsto> ''http://x'', ''PORT'' \<mapsto> ''70000''])
       = Inl (Other_exception ''OverflowError'')"
  by (simp add: script_cases truthy_def Let_def environ_get_def py_int_def split_sign_def
      is_space_def is_digit_def decimal_value_def digit_value_def listeners_constructions
      listeners_Nil)

text \<open>
  C2, as amended: in every environment in which \<open>BLOCKETHER_LLM_API_BASE_URL\<close> is set to
  a non-empty string and in which the text of \<open>PORT\<close> (\<open>8080\<close> when \<open>PORT\<close> is unset)
  converts to the integer \<open>port\<close>, the script run as \<open>__main__\<close> asks for exactly one
  listener: it calls \<open>uvicorn.run\<close> once, on the web handler it constructed last, with
  host \<open>0.0.0.0\<close> and port \<open>port\<close>. That port is 8080 when \<open>PORT\<close> is unset and the
  integer value of \<open>PORT\<close> when it is set. Whether the port is then bound is the
  server's: the run ends in an exception exactly when the server raises one.
\<close>

theorem main_binds_port:
  assumes "environ ''BLOCKETHER_LLM_API_BASE_URL'' = Some u" and "u \<noteq> []"
    and "py_int lim (environ_get environ ''PORT'' ''8080'') = Inr port"
  shows "(\<exists>a. listeners (fst (script srv lim ''__main__'' environ)) =
                 [Uvicorn_run a ''0.0.0.0'' port]
              \<and> last (constructed (fst (script srv lim ''__main__'' environ))) = Obj_App a
              \<and> (isl (snd (script srv lim ''__main__'' environ))
                   \<longleftrightarrow> srv a ''0.0.0.0'' port \<noteq> None))
         \<and> (environ ''PORT'' = None \<longrightarrow> port = 8080)
         \<and> (\<forall>s. environ ''PORT'' = Some s \<longrightarrow> py_int lim s = Inr port)"
proof -
  let ?g = "built (environ ''BLOCKETHER_LLM_API_BASE_URL'') (environ ''BLOCKETHER_LLM_API_KEY'')"
  have t: "truthy (environ ''BLOCKETHER_LLM_API_BASE_URL'')"
    using assms(1,2) by (simp add: truthy_Some)
  have r: "script srv lim ''__main__'' environ =
             (constructions ?g @ [Uvicorn_run (app ?g) ''0.0.0.0'' port],
              case srv (app ?g) ''0.0.0.0'' port of None \<Rightarrow> Inr ?g | Some e \<Rightarrow> Inl e)"
    using assms(3) t by (simp add: script_main [of environ srv lim] Let_def)
  have "listeners (fst (script srv lim ''__main__'' environ)) =
          [Uvicorn_run (app ?g) ''0.0.0.0'' port]"
    by (simp add: r listeners_served)
  moreover have "last (constructed (fst (script srv lim ''__main__'' environ))) =
                   Obj_App (app ?g)"
    by (simp add: r constructed_served constructed_constructions)
  moreover have "isl (snd (script srv lim ''__main__'' environ))
                   \<longleftrightarrow> srv (app ?g) ''0.0.0.0'' port \<noteq> None"
    by (simp add: r split: option.splits)
  moreover have "environ ''PORT'' = None \<longrightarrow> port = 8080"
    using assms(3) by (auto simp: environ_get_def py_int_default)
  moreover have "\<forall>s. environ ''PORT'' = Some s \<longrightarrow> py_int lim s = Inr port"
    using assms(3) by (auto simp: environ_get_def)
  ultimately show ?thesis by blast
qed

theorem main_binds_port_witness:
  "py_int 4300 (environ_get [''BLOCKETHER_LLM_API_BASE_URL'' \<mapsto> ''http://x''] ''PORT'' ''8080'')
     = Inr 8080
   \<and> (\<exists>a. listeners (fst (script (\<lambda>a h p. None) 4300 ''__main__''
                             [''BLOCKETHER_LLM_API_BASE_URL'' \<mapsto> ''http://x'']))
           = [Uvicorn_run a ''0.0.0.0'' 8080])
   \<and> py_int 4300 (environ_get [''BLOCKETHER_LLM_API_BASE_URL'' \<mapsto> ''http://x'',
                                  ''PORT'' \<mapsto> ''9090''] ''PORT'' ''8080'')
     = Inr 9090
   \<and> (\<exists>a. listeners (fst (script (\<lambda>a h p. None) 4300 ''__main__''
                             [''BLOCKETHER_LLM_API_BASE_URL'' \<mapsto> ''http://x'',
                              ''PORT'' \<mapsto> ''9090'']))
           = [Uvicorn_run a ''0.0.0.0'' 9090])"
proof -
  let ?e1 = "[''BLOCKETHER_LLM_API_BASE_URL'' \<mapsto> ''http://x'']"
  let ?e2 = "[''BLOCKETHER_LLM_API_BASE_URL'' \<mapsto> ''http://x'', ''PORT'' \<mapsto> ''9090'']"
  have b1: "?e1 ''BLOCKETHER_LLM_API_BASE_URL'' = Some ''http://x''" by simp
  have b2: "?e2 ''BLOCKETHER_LLM_API_BASE_URL'' = Some ''http://x''" by simp
  have n: "''http://x'' \<noteq> []" by simp
  have p1: "py_int 4300 (environ_get ?e1 ''PORT'' ''8080'') = Inr 8080"
    by (simp add: environ_get_def py_int_def split_sign_def is_space_def is_digit_def
        decimal_value_def digit_value_def)
  have p2: "py_int 4300 (environ_get ?e2 ''PORT'' ''8080'') = Inr 9090"
    by (simp add: environ_get_def py_int_def split_sign_def is_space_def is_digit_def
        decimal_value_def digit_value_def)
  note w1 = main_binds_port [where environ = ?e1 and u = "''http://x''" and lim = 4300
                               and port = 8080 and srv = "\<lambda>a h p. None", OF b1 n p1]
  note w2 = main_binds_port [where environ = ?e2 and u = "''http://x''" and lim = 4300
                               and port = 9090 and srv = "\<lambda>a h p. None", OF b2 n p2]
  from w1 w2 p1 p2 show ?thesis by blast
qed

text \<open>
  C3: when the module is imported, that is, when its name is not \<open>__main__\<close>, the run
  never calls \<open>uvicorn.run\<close>, in any environment.
\<close>

theorem imported_never_listens:
  assumes "name \<noteq> ''__main__''"
  shows "listeners (fst (script srv lim name environ)) = []"
  using assms by (simp add: script_cases Let_def listeners_constructions listeners_Nil)

theorem imported_never_listens_witness:
  "''server'' \<noteq> ''__main__''
   \<and> listeners (fst (script (\<lambda>a h p. None) 4300 ''server''
                      [''BLOCKETHER_LLM_API_BASE_URL'' \<mapsto> ''http://x''])) = []"
proof -
  have h: "''server'' \<noteq> ''__main__''" by simp
  from h imported_never_listens
           [where name = "''server''" and srv = "\<lambda>a h p. None" and lim = 4300
              and environ = "[''BLOCKETHER_LLM_API_BASE_URL'' \<mapsto> ''http://x'']", OF h]
  show ?thesis by (rule conjI)
qed

text \<open>
  The sentence "startup fails with an error from the port conversion whenever the
  script runs as the main entry point with a \<open>PORT\<close> that is not a valid integer" fails
  where the base URL is missing: the guard raises first, and the error is the
  missing-configuration \<open>ValueError\<close>, not the one \<open>int\<close> raises for \<open>abc\<close>.
\<close>

theorem invalid_port_raises_counterexample:
  "py_int 4300 ''abc'' = Inl (Int_invalid_literal ''abc'')
   \<and> snd (script (\<lambda>a h p. None) 4300 ''__main__'' [''PORT'' \<mapsto> ''abc'']) =
       Inl (ValueError ''BLOCKETHER_LLM_API_BASE_URL environment variable is not set.'')
   \<and> snd (script (\<lambda>a h p. None) 4300 ''__main__'' [''PORT'' \<mapsto> ''abc''])
       \<noteq> Inl (Int_invalid_literal ''abc'')"
  by (simp add: script_cases truthy_None py_int_def split_sign_def is_space_def is_digit_def)

text \<open>
  C9, as amended: when \<open>BLOCKETHER_LLM_API_BASE_URL\<close> is set to a non-empty string and
  the script runs as \<open>__main__\<close> with \<open>PORT\<close> set to a text on which \<open>int\<close> raises, the
  run ends with that exception of the conversion; there is no fall-back to port 8080,
  and \<open>uvicorn.run\<close> is never called.
\<close>

theorem invalid_port_raises:
  assumes "environ ''BLOCKETHER_LLM_API_BASE_URL'' = Some u" and "u \<noteq> []"
    and "environ ''PORT'' = Some s" and "py_int lim s = Inl e"
  shows "snd (script srv lim ''__main__'' environ) = Inl e
         \<and> listeners (fst (script srv lim ''__main__'' environ)) = []"
  using assms
  by (simp add: script_cases truthy_Some Let_def environ_get_def listeners_constructions)

theorem invalid_port_raises_witness:
  "py_int 4300 ''abc'' = Inl (Int_invalid_literal ''abc'')
   \<and> snd (script (\<lambda>a h p. None) 4300 ''__main__''
        [''BLOCKETHER_LLM_API_BASE_URL'' \<mapsto> ''http://x'', ''PORT'' \<mapsto> ''abc''])
       = Inl (Int_invalid_literal ''abc'')
   \<and> listeners (fst (script (\<lambda>a h p. None) 4300 ''__main__''
        [''BLOCKETHER_LLM_API_BASE_URL'' \<mapsto> ''http://x'', ''PORT'' \<mapsto> ''abc''])) = []"
proof -
  let ?e = "[''BLOCKETHER_LLM_API_BASE_URL'' \<mapsto> ''http://x'', ''PORT'' \<mapsto> ''abc'']"
  have b: "?e ''BLOCKETHER_LLM_API_BASE_URL'' = Some ''http://x''" by simp
  have n: "''http://x'' \<noteq> []" by simp
  have s: "?e ''PORT'' = Some ''abc''" by simp
  have p: "py_int 4300 ''abc'' = Inl (Int_invalid_literal ''abc'')"
    by (simp add: py_int_def split_sign_def is_space_def is_digit_def)
  from p invalid_port_raises
           [where environ = ?e and u = "''http://x''" and s = "''abc''" and lim = 4300
              and e = "Int_invalid_literal ''abc''" and srv = "\<lambda>a h p. None", OF b n s p]
  show ?thesis by (rule conjI)
qed

subsection \<open>The objects and their wiring\<close>

text \<open>
  The sentence "on successful startup the script constructs exactly a storage backend,
  a chat-model client, an agent, a server-application object and the web handler, in
  this order" fails on every successful run: between the agent and the
  server-application object the script constructs the \<open>AGUI\<close> interface.
\<close>

theorem construction_order_counterexample:
  "\<not> isl (snd (script (\<lambda>a h p. None) 4300 ''server''
                [''BLOCKETHER_LLM_API_BASE_URL'' \<mapsto> ''http://x'']))
   \<and> map kind_of (constructed (fst (script (\<lambda>a h p. None) 4300 ''server''
                     [''BLOCKETHER_LLM_API_BASE_URL'' \<mapsto> ''http://x''])))
     \<noteq> [Storage_backend, Chat_model_client, Conversational_agent, Server_application,
         Web_handler]"
  by (simp add: script_cases truthy_def Let_def constructed_constructions)

text \<open>
  C4, as amended: a run that no exception ended has constructed exactly these objects,
  in this order: the in-memory storage backend, the chat-model client, the
  conversational agent, the \<open>AGUI\<close> interface of that agent (the fourth object, of
  identity 3), the server-application object, and the application's web handler; they
  are the objects the globals name.
\<close>

theorem construction_order:
  assumes "snd (script srv lim name environ) = Inr g"
  shows "constructed (fst (script srv lim name environ)) =
           [Obj_InMemoryDb (storage g), Obj_OpenAIChat (blockether_model g),
            Obj_Agent (conversational_agent g), Obj_AGUI (AGUI 3 (conversational_agent g)),
            Obj_AgentOS (agent_os g), Obj_App (app g)]
         \<and> map kind_of (constructed (fst (script srv lim name environ))) =
           [Storage_backend, Chat_model_client, Conversational_agent, Protocol_interface,
            Server_application, Web_handler]"
  using script_Inr(3) [OF assms] by (simp add: constructed_constructions)

theorem construction_order_witness:
  "map kind_of (constructed (fst (script (\<lambda>a h p. None) 4300 ''__main__''
      [''BLOCKETHER_LLM_API_BASE_URL'' \<mapsto> ''http://x'']))) =
     [Storage_backend, Chat_model_client, Conversational_agent, Protocol_interface,
      Server_application, Web_handler]"
proof -
  let ?e = "[''BLOCKETHER_LLM_API_BASE_URL'' \<mapsto> ''http://x'']"
  have h: "snd (script (\<lambda>a h p. None) 4300 ''__main__'' ?e) =
             Inr (built (Some ''http://x'') None)"
    by (simp add: script_cases truthy_def Let_def environ_get_def py_int_default)
  from construction_order [OF h] show ?thesis by (rule conjunct2)
qed

text \<open>
  C5: in a run that no exception ended the objects are wired as the spec says. The
  chat-model client's base URL is the value of \<open>BLOCKETHER_LLM_API_BASE_URL\<close> in the
  environment. The agent holds that model client and that storage backend: the very
  objects, identity included, that the globals \<open>blockether_model\<close> and \<open>storage\<close> name.
  The server-application object holds that agent, and an interface of that agent, with
  \<open>enable_mcp_server\<close> true, and the web handler is the one of that server-application
  object. These are the objects the run constructed, and no others: the storage
  backend, the model client, the agent, the interface, the server-application object and
  the web handler, each with an identity of its own, so the storage backend the agent
  holds is the one storage backend there is.
\<close>

theorem objects_wired:
  assumes "snd (script srv lim name environ) = Inr g"
  shows "base_url (blockether_model g) = environ ''BLOCKETHER_LLM_API_BASE_URL''
         \<and> model (conversational_agent g) = blockether_model g
         \<and> db (conversational_agent g) = storage g
         \<and> agents (agent_os g) = [conversational_agent g]
         \<and> enable_mcp_server (agent_os g)
         \<and> map agui_agent (interfaces (agent_os g)) = [conversational_agent g]
         \<and> app_os (app g) = agent_os g
         \<and> constructed (fst (script srv lim name environ)) =
             [Obj_InMemoryDb (storage g), Obj_OpenAIChat (blockether_model g),
              Obj_Agent (conversational_agent g)]
             @ map Obj_AGUI (interfaces (agent_os g))
             @ [Obj_AgentOS (agent_os g), Obj_App (app g)]
         \<and> distinct (map oid (constructed (fst (script srv lim name environ))))"
proof -
  let ?b = "built (environ ''BLOCKETHER_LLM_API_BASE_URL'') (environ ''BLOCKETHER_LLM_API_KEY'')"
  have g: "g = ?b"
    by (rule script_Inr(2) [OF assms])
  have c: "constructed (fst (script srv lim name environ)) = constructed (constructions ?b)"
    using script_Inr(3) [OF assms] by (simp add: g)
  have "distinct (map oid (constructed (fst (script srv lim name environ))))"
    by (simp add: c oid_constructions)
  moreover have "constructed (fst (script srv lim name environ)) =
             [Obj_InMemoryDb (storage g), Obj_OpenAIChat (blockether_model g),
              Obj_Agent (conversational_agent g)]
             @ map Obj_AGUI (interfaces (agent_os g))
             @ [Obj_AgentOS (agent_os g), Obj_App (app g)]"
    by (simp add: c g constructed_constructions) (simp add: built_def Let_def)
  moreover have "base_url (blockether_model g) = environ ''BLOCKETHER_LLM_API_BASE_URL''
         \<and> model (conversational_agent g) = blockether_model g
         \<and> db (conversational_agent g) = storage g
         \<and> agents (agent_os g) = [conversational_agent g]
         \<and> enable_mcp_server (agent_os g)
         \<and> map agui_agent (interfaces (agent_os g)) = [conversational_agent g]
         \<and> app_os (app g) = agent_os g"
    by (simp add: g built_def Let_def)
  ultimately show ?thesis by simp
qed

theorem objects_wired_witness:
  "(case snd (script (\<lambda>a h p. None) 4300 ''__main__''
                [''BLOCKETHER_LLM_API_BASE_URL'' \<mapsto> ''http://x'']) of
      Inl e \<Rightarrow> False
    | Inr g \<Rightarrow> base_url (blockether_model g) = Some ''http://x''
               \<and> model (conversational_agent g) = blockether_model g
               \<and> db (conversational_agent g) = storage g
               \<and> db_oid (storage g) = 0
               \<and> agents (agent_os g) = [conversational_agent g]
               \<and> enable_mcp_server (agent_os g)
               \<and> app_os (app g) = agent_os g)"
proof -
  let ?e = "[''BLOCKETHER_LLM_API_BASE_URL'' \<mapsto> ''http://x'']"
  have h: "snd (script (\<lambda>a h p. None) 4300 ''__main__'' ?e) =
             Inr (built (Some ''http://x'') None)"
    by (simp add: script_cases truthy_def Let_def environ_get_def py_int_default)
  have "db_oid (storage (built (Some ''http://x'') None)) = 0"
    by (simp add: built_def Let_def)
  with objects_wired [OF h] show ?thesis by (simp add: h)
qed

subsection \<open>The API key\<close>

text \<open>
  C6: in every environment in which \<open>BLOCKETHER_LLM_API_BASE_URL\<close> is set, the absence
  of \<open>BLOCKETHER_LLM_API_KEY\<close> raises no error: the run with the key removed makes the
  same external calls, and ends in the same exception or in none, as the run with the
  key set to any value \<open>k\<close>. The key is read all the same: in a run that no exception
  ended the global \<open>MODEL_API_KEY\<close> holds \<open>None\<close> when the key is absent and \<open>k\<close> when
  it is set to \<open>k\<close>.
\<close>

theorem api_key_absence_raises_nothing:
  assumes "environ ''BLOCKETHER_LLM_API_BASE_URL'' = Some u"
  shows "fst (script srv lim name (environ(''BLOCKETHER_LLM_API_KEY'' := None))) =
           fst (script srv lim name (environ(''BLOCKETHER_LLM_API_KEY'' \<mapsto> k)))
         \<and> map_sum id (\<lambda>g. ())
             (snd (script srv lim name (environ(''BLOCKETHER_LLM_API_KEY'' := None)))) =
           map_sum id (\<lambda>g. ())
             (snd (script srv lim name (environ(''BLOCKETHER_LLM_API_KEY'' \<mapsto> k))))
         \<and> (case snd (script srv lim name (environ(''BLOCKETHER_LLM_API_KEY'' := None))) of
               Inl e \<Rightarrow> True
             | Inr g \<Rightarrow> MODEL_API_KEY g = None)
         \<and> (case snd (script srv lim name (environ(''BLOCKETHER_LLM_API_KEY'' \<mapsto> k))) of
               Inl e \<Rightarrow> True
             | Inr g \<Rightarrow> MODEL_API_KEY g = Some k)"
proof -
  let ?u = "environ ''BLOCKETHER_LLM_API_BASE_URL''"
  have p: "environ_get (environ(''BLOCKETHER_LLM_API_KEY'' := None)) ''PORT'' ''8080'' =
           environ_get environ ''PORT'' ''8080''"
          "environ_get (environ(''BLOCKETHER_LLM_API_KEY'' \<mapsto> k)) ''PORT'' ''8080'' =
           environ_get environ ''PORT'' ''8080''"
    by (simp_all add: environ_get_def)
  have c: "constructions (built ?u (Some k)) = constructions (built ?u None)"
    by (rule built_simps(4))
  have a: "app (built ?u (Some k)) = app (built ?u None)"
    by (rule built_simps(3))
  show ?thesis
    by (simp add: script_cases p c a Let_def built_simps(1) split: sum.splits option.splits)
qed

theorem api_key_absence_raises_nothing_witness:
  "([''BLOCKETHER_LLM_API_BASE_URL'' \<mapsto> ''http://x''](''BLOCKETHER_LLM_API_KEY'' := None))
      ''BLOCKETHER_LLM_API_KEY'' = None
   \<and> (case snd (script (\<lambda>a h p. None) 4300 ''__main__''
          ([''BLOCKETHER_LLM_API_BASE_URL'' \<mapsto> ''http://x''](''BLOCKETHER_LLM_API_KEY'' := None))) of
         Inl e \<Rightarrow> False
       | Inr g \<Rightarrow> MODEL_API_KEY g = None)
   \<and> (case snd (script (\<lambda>a h p. None) 4300 ''__main__''
          ([''BLOCKETHER_LLM_API_BASE_URL'' \<mapsto> ''http://x''](''BLOCKETHER_LLM_API_KEY'' \<mapsto> ''secret''))) of
         Inl e \<Rightarrow> False
       | Inr g \<Rightarrow> MODEL_API_KEY g = Some ''secret'')"
proof -
  let ?e = "[''BLOCKETHER_LLM_API_BASE_URL'' \<mapsto> ''http://x'']"
  have b: "?e ''BLOCKETHER_LLM_API_BASE_URL'' = Some ''http://x''" by simp
  have r: "\<not> isl (snd (script (\<lambda>a h p. None) 4300 ''__main__''
                         (?e(''BLOCKETHER_LLM_API_KEY'' := None))))"
    by (simp add: script_cases truthy_def Let_def environ_get_def py_int_default)
  have r': "\<not> isl (snd (script (\<lambda>a h p. None) 4300 ''__main__''
                         (?e(''BLOCKETHER_LLM_API_KEY'' \<mapsto> ''secret''))))"
    by (simp add: script_cases truthy_def Let_def environ_get_def py_int_default)
  from api_key_absence_raises_nothing
         [where environ = ?e and u = "''http://x''" and srv = "\<lambda>a h p. None" and lim = 4300
            and name = "''__main__''" and k = "''secret''", OF b] r r'
  show ?thesis by (auto split: sum.splits)
qed

text \<open>
  C10: two environments that differ at most in \<open>BLOCKETHER_LLM_API_KEY\<close> give the same
  run: the same external calls in the same order (the same objects constructed, the same
  call of \<open>uvicorn.run\<close>), the same exception if one is raised, and the same globals but
  for \<open>MODEL_API_KEY\<close> itself, the one place where the key that was read is kept.
\<close>

theorem api_key_no_influence:
  assumes "\<forall>k. k \<noteq> ''BLOCKETHER_LLM_API_KEY'' \<longrightarrow> env1 k = env2 k"
  shows "fst (script srv lim name env1) = fst (script srv lim name env2)
         \<and> map_sum id (\<lambda>g. g\<lparr>MODEL_API_KEY := None\<rparr>) (snd (script srv lim name env1)) =
           map_sum id (\<lambda>g. g\<lparr>MODEL_API_KEY := None\<rparr>) (snd (script srv lim name env2))"
proof -
  have b: "env1 ''BLOCKETHER_LLM_API_BASE_URL'' = env2 ''BLOCKETHER_LLM_API_BASE_URL''"
    using assms by simp
  have "env1 ''PORT'' = env2 ''PORT''"
    using assms by simp
  then have p: "environ_get env1 ''PORT'' ''8080'' = environ_get env2 ''PORT'' ''8080''"
    by (simp add: environ_get_def)
  let ?u = "env2 ''BLOCKETHER_LLM_API_BASE_URL''"
  have c: "constructions (built ?u (env1 ''BLOCKETHER_LLM_API_KEY'')) =
           constructions (built ?u (env2 ''BLOCKETHER_LLM_API_KEY''))"
    by (simp add: built_simps(4) [of ?u "env1 ''BLOCKETHER_LLM_API_KEY''"]
                  built_simps(4) [of ?u "env2 ''BLOCKETHER_LLM_API_KEY''"])
  have a: "app (built ?u (env1 ''BLOCKETHER_LLM_API_KEY'')) =
           app (built ?u (env2 ''BLOCKETHER_LLM_API_KEY''))"
    by (simp add: built_simps(3) [of ?u "env1 ''BLOCKETHER_LLM_API_KEY''"]
                  built_simps(3) [of ?u "env2 ''BLOCKETHER_LLM_API_KEY''"])
  show ?thesis
    by (simp add: script_cases b p c a Let_def built_simps(5)
        split: sum.splits option.splits)
qed

theorem api_key_no_influence_witness:
  "fst (script (\<lambda>a h p. None) 4300 ''__main__''
         [''BLOCKETHER_LLM_API_BASE_URL'' \<mapsto> ''http://x'',
          ''BLOCKETHER_LLM_API_KEY'' \<mapsto> ''secret''])
   = fst (script (\<lambda>a h p. None) 4300 ''__main__''
           [''BLOCKETHER_LLM_API_BASE_URL'' \<mapsto> ''http://x''])
   \<and> map_sum id (\<lambda>g. g\<lparr>MODEL_API_KEY := None\<rparr>)
        (snd (script (\<lambda>a h p. None) 4300 ''__main__''
               [''BLOCKETHER_LLM_API_BASE_URL'' \<mapsto> ''http://x'',
                ''BLOCKETHER_LLM_API_KEY'' \<mapsto> ''secret'']))
   = map_sum id (\<lambda>g. g\<lparr>MODEL_API_KEY := None\<rparr>)
        (snd (script (\<lambda>a h p. None) 4300 ''__main__''
               [''BLOCKETHER_LLM_API_BASE_URL'' \<mapsto> ''http://x'']))"
proof -
  let ?e1 = "[''BLOCKETHER_LLM_API_BASE_URL'' \<mapsto> ''http://x'',
              ''BLOCKETHER_LLM_API_KEY'' \<mapsto> ''secret'']"
  let ?e2 = "[''BLOCKETHER_LLM_API_BASE_URL'' \<mapsto> ''http://x'']"
  have h: "\<forall>k. k \<noteq> ''BLOCKETHER_LLM_API_KEY'' \<longrightarrow> ?e1 k = ?e2 k" by simp
  show ?thesis
    by (rule api_key_no_influence
          [where ?env1.0 = ?e1 and ?env2.0 = ?e2 and srv = "\<lambda>a h p. None" and lim = 4300
             and name = "''__main__''", OF h])
qed

end
